theory Spec2Isabelle
  imports Main "HOL-Library.FSet"
begin

section \<open>Python values shared by the three processors\<close>

text \<open>
  The exceptions the processors can raise while they aggregate. A raise aborts the whole
  run, so every function that can raise returns \<open>error + result\<close>.
\<close>

datatype error = KeyError | ZeroDivisionError

text \<open>
  A Python \<open>dict\<close> keeps its keys in insertion order, and the rate calculator iterates
  over the detection mapping, so a dict is an association list. \<open>dict_get\<close> is
  \<open>d.get(k, dflt)\<close>; \<open>dict_set\<close> is \<open>d[k] = v\<close>: an existing key keeps its
  position, a new key goes to the end.
\<close>

type_synonym ('k, 'v) dict = "('k \<times> 'v) list"

definition dict_get :: "('k, 'v) dict \<Rightarrow> 'k \<Rightarrow> 'v \<Rightarrow> 'v" where
  "dict_get d k dflt = (case map_of d k of None \<Rightarrow> dflt | Some v \<Rightarrow> v)"

definition dict_set :: "'k \<Rightarrow> 'v \<Rightarrow> ('k, 'v) dict \<Rightarrow> ('k, 'v) dict" where
  "dict_set k v d =
     (case map_of d k of
        None \<Rightarrow> d @ [(k, v)]
      | Some _ \<Rightarrow> map (\<lambda>(k', v'). if k' = k then (k', v) else (k', v')) d)"

text \<open>
  Python floats are modelled by exact rationals: \<open>a / b\<close> is the exact quotient and
  \<open>round(x, n)\<close> rounds to \<open>n\<close> decimal places, a tie going to the even neighbour.
  Python rounds the binary float nearest to the quotient, so a quotient that lies exactly
  halfway between two neighbours may go either way there; the inputs evaluated below have
  no such quotient.
\<close>

definition round_half_even :: "rat \<Rightarrow> int" where
  "round_half_even x =
     (let f = \<lfloor>x\<rfloor>; d = x - of_int f
      in if d < 1 / 2 then f else if 1 / 2 < d then f + 1 else if even f then f else f + 1)"

definition py_round :: "rat \<Rightarrow> nat \<Rightarrow> rat" where
  "py_round x n = of_int (round_half_even (x * 10 ^ n)) / 10 ^ n"

section \<open>config.py\<close>

definition MIN_CHECKLISTS_THRESHOLD :: int where
  "MIN_CHECKLISTS_THRESHOLD = 10"

definition HIGH_CONFIDENCE_MIN :: int where
  "HIGH_CONFIDENCE_MIN = 100"

definition MEDIUM_CONFIDENCE_MIN :: int where
  "MEDIUM_CONFIDENCE_MIN = 30"

definition SEASONS :: "(string, nat list) dict" where
  "SEASONS =
     [(''spring'', [3, 4, 5]),
      (''summer'', [6, 7]),
      (''fall'', [8, 9, 10, 11]),
      (''winter'', [12, 1, 2])]"

definition RATE_DECIMAL_PLACES :: nat where
  "RATE_DECIMAL_PLACES = 4"

section \<open>processors/checklist\_counter.py\<close>

text \<open>
  A row of the sampling file after the loader has projected and typed it.
  \<open>sr_all_species_reported\<close> is the nullable \<open>Int64\<close> column; \<open>sr_month\<close> is the
  month that \<open>pd.to_datetime(...).dt.month\<close> gives for the row's observation date.
\<close>

record sampling_row =
  sr_locality_id :: string
  sr_locality :: string
  sr_locality_type :: string
  sr_latitude :: rat
  sr_longitude :: rat
  sr_month :: nat
  sr_all_species_reported :: "int option"

text \<open>The value stored under a locality id in \<open>hotspot_data\<close>.\<close>

record hotspot =
  name :: string
  latitude :: rat
  longitude :: rat
  total_checklists :: int
  monthly_checklists :: "(nat, int) dict"

type_synonym hotspot_data = "(string, hotspot) dict"

definition sampling_mask :: "sampling_row \<Rightarrow> bool" where
  "sampling_mask row = (sr_locality_type row = ''H'' \<and> sr_all_species_reported row = Some 1)"

definition new_hotspot :: "sampling_row \<Rightarrow> hotspot" where
  "new_hotspot row =
     \<lparr>name = sr_locality row,
      latitude = sr_latitude row,
      longitude = sr_longitude row,
      total_checklists = 0,
      monthly_checklists = map (\<lambda>m. (m, 0)) [1..<13]\<rparr>"

text \<open>
  The body of the \<open>for _, row in filtered.iterrows()\<close> loop. \<open>d[month] += 1\<close> on a
  month that is no key of the twelve-slot dict raises \<open>KeyError\<close>.
\<close>

definition count_row :: "hotspot_data \<Rightarrow> sampling_row \<Rightarrow> error + hotspot_data" where
  "count_row hotspot_data row =
     (let loc_id = sr_locality_id row;
          month = sr_month row;
          h = (case map_of hotspot_data loc_id of None \<Rightarrow> new_hotspot row | Some h \<Rightarrow> h);
          h1 = h\<lparr>total_checklists := total_checklists h + 1\<rparr>
      in case map_of (monthly_checklists h1) month of
           None \<Rightarrow> Inl KeyError
         | Some c \<Rightarrow>
             Inr (dict_set loc_id
                    (h1\<lparr>monthly_checklists := dict_set month (c + 1) (monthly_checklists h1)\<rparr>)
                    hotspot_data))"

fun count_rows :: "hotspot_data \<Rightarrow> sampling_row list \<Rightarrow> error + hotspot_data" where
  "count_rows hotspot_data [] = Inr hotspot_data"
| "count_rows hotspot_data (row # rows) =
     (case count_row hotspot_data row of
        Inl e \<Rightarrow> Inl e
      | Inr hotspot_data' \<Rightarrow> count_rows hotspot_data' rows)"

text \<open>The \<open>for chunk in chunks\<close> loop: each chunk is filtered by the mask, then aggregated.\<close>

fun count_chunks :: "hotspot_data \<Rightarrow> sampling_row list list \<Rightarrow> error + hotspot_data" where
  "count_chunks hotspot_data [] = Inr hotspot_data"
| "count_chunks hotspot_data (chunk # chunks) =
     (case count_rows hotspot_data (filter sampling_mask chunk) of
        Inl e \<Rightarrow> Inl e
      | Inr hotspot_data' \<Rightarrow> count_chunks hotspot_data' chunks)"

text \<open>The argument is the sampling file as the chunked reader delivers it.\<close>

definition count_checklists_per_hotspot :: "sampling_row list list \<Rightarrow> error + hotspot_data" where
  "count_checklists_per_hotspot chunks = count_chunks [] chunks"

section \<open>processors/species\_detector.py\<close>

text \<open>
  The observation-count cell as the loader types it: a string (\<open>'X'\<close>, \<open>'12'\<close>) in a
  column read as objects, an integer in a column read as numbers, or missing
  (\<open>pd.notna\<close> is false).
\<close>

datatype obs_count = CountStr string | CountInt int | CountNA

text \<open>A row of the main observations file after the loader has projected and typed it.\<close>

record observation_row =
  or_common_name :: string
  or_scientific_name :: string
  or_category :: string
  or_locality_id :: string
  or_locality_type :: string
  or_sampling_event_identifier :: string
  or_all_species_reported :: "int option"
  or_month :: nat
  or_observation_count :: obs_count

text \<open>The value stored under species and locality id in \<open>species_detections\<close>.\<close>

record detection =
  scientific_name :: "string option"
  checklist_ids :: "string fset"
  monthly_checklist_ids :: "(nat, string fset) dict"
  total_count :: int
  max_count :: int

type_synonym species_detections = "(string, (string, detection) dict) dict"

text \<open>
  Python's \<open>int(s)\<close> on a string, for ASCII input: surrounding whitespace is stripped,
  one sign is allowed, then decimal digits, single underscores allowed between digits.
  \<open>None\<close> stands for the \<open>ValueError\<close> that the caller catches.
\<close>

definition is_space :: "char \<Rightarrow> bool" where
  "is_space c = (c \<in> set [CHR 0x20, CHR 0x09, CHR 0x0A, CHR 0x0B, CHR 0x0C, CHR 0x0D,
                           CHR 0x1C, CHR 0x1D, CHR 0x1E, CHR 0x1F])"

definition strip :: "string \<Rightarrow> string" where
  "strip s = rev (dropWhile is_space (rev (dropWhile is_space s)))"

definition digit_of :: "char \<Rightarrow> nat option" where
  "digit_of c =
     (let n = (of_char c :: nat)
      in if of_char CHR ''0'' \<le> n \<and> n \<le> of_char CHR ''9'' then Some (n - of_char CHR ''0'')
         else None)"

fun digits_val :: "nat \<Rightarrow> string \<Rightarrow> nat option" where
  "digits_val acc [] = Some acc"
| "digits_val acc [c] =
     (case digit_of c of None \<Rightarrow> None | Some v \<Rightarrow> Some (acc * 10 + v))"
| "digits_val acc (c # d # ds) =
     (if c = CHR ''_'' then
        (case digit_of d of None \<Rightarrow> None | Some v \<Rightarrow> digits_val (acc * 10 + v) ds)
      else
        (case digit_of c of None \<Rightarrow> None | Some v \<Rightarrow> digits_val (acc * 10 + v) (d # ds)))"

definition unsigned_val :: "string \<Rightarrow> nat option" where
  "unsigned_val s =
     (case s of
        [] \<Rightarrow> None
      | c # cs \<Rightarrow> (case digit_of c of None \<Rightarrow> None | Some v \<Rightarrow> digits_val v cs))"

definition int_of_str :: "string \<Rightarrow> int option" where
  "int_of_str s =
     (case strip s of
        [] \<Rightarrow> None
      | c # cs \<Rightarrow>
          if c = CHR ''-'' then map_option (\<lambda>n. - int n) (unsigned_val cs)
          else if c = CHR ''+'' then map_option int (unsigned_val cs)
          else map_option int (unsigned_val (c # cs)))"

fun py_int :: "obs_count \<Rightarrow> int option" where
  "py_int (CountStr s) = int_of_str s"
| "py_int (CountInt n) = Some n"
| "py_int CountNA = None"

definition detection_mask :: "observation_row \<Rightarrow> bool" where
  "detection_mask row =
     (or_locality_type row = ''H'' \<and> or_all_species_reported row = Some 1
      \<and> or_category row = ''species'')"

definition new_detection :: detection where
  "new_detection =
     \<lparr>scientific_name = None,
      checklist_ids = {||},
      monthly_checklist_ids = map (\<lambda>m. (m, {||})) [1..<13],
      total_count = 0,
      max_count = 0\<rparr>"

text \<open>
  The handling of the observation count: \<open>'X'\<close> and a missing cell are skipped, a value
  that \<open>int\<close> rejects is skipped by the \<open>except\<close> clause.
\<close>

definition add_count :: "obs_count \<Rightarrow> detection \<Rightarrow> detection" where
  "add_count obs data =
     (if obs \<noteq> CountStr ''X'' \<and> obs \<noteq> CountNA then
        (case py_int obs of
           Some count \<Rightarrow>
             data\<lparr>total_count := total_count data + count,
                  max_count := max (max_count data) count\<rparr>
         | None \<Rightarrow> data)
      else data)"

text \<open>
  The body of the \<open>for _, row in filtered.iterrows()\<close> loop. The two nested
  \<open>defaultdict\<close>s create a missing species and a missing locality on first access.
\<close>

definition detect_row :: "species_detections \<Rightarrow> observation_row \<Rightarrow> error + species_detections"
  where
  "detect_row species_detections row =
     (let species = or_common_name row;
          sci_name = or_scientific_name row;
          loc_id = or_locality_id row;
          checklist_id = or_sampling_event_identifier row;
          month = or_month row;
          hotspots = dict_get species_detections species [];
          data = dict_get hotspots loc_id new_detection;
          data1 = data\<lparr>scientific_name := Some sci_name,
                       checklist_ids := finsert checklist_id (checklist_ids data)\<rparr>
      in case map_of (monthly_checklist_ids data1) month of
           None \<Rightarrow> Inl KeyError
         | Some ids \<Rightarrow>
             let data2 = data1\<lparr>monthly_checklist_ids :=
                                 dict_set month (finsert checklist_id ids)
                                   (monthly_checklist_ids data1)\<rparr>;
                 data3 = add_count (or_observation_count row) data2
             in Inr (dict_set species (dict_set loc_id data3 hotspots) species_detections))"

fun detect_rows :: "species_detections \<Rightarrow> observation_row list \<Rightarrow> error + species_detections"
  where
  "detect_rows species_detections [] = Inr species_detections"
| "detect_rows species_detections (row # rows) =
     (case detect_row species_detections row of
        Inl e \<Rightarrow> Inl e
      | Inr species_detections' \<Rightarrow> detect_rows species_detections' rows)"

fun detect_chunks ::
  "species_detections \<Rightarrow> observation_row list list \<Rightarrow> error + species_detections" where
  "detect_chunks species_detections [] = Inr species_detections"
| "detect_chunks species_detections (chunk # chunks) =
     (case detect_rows species_detections (filter detection_mask chunk) of
        Inl e \<Rightarrow> Inl e
      | Inr species_detections' \<Rightarrow> detect_chunks species_detections' chunks)"

text \<open>The argument is the main file as the chunked reader delivers it.\<close>

definition count_species_detections ::
  "observation_row list list \<Rightarrow> error + species_detections" where
  "count_species_detections chunks = detect_chunks [] chunks"

section \<open>processors/occurrence\_calculator.py\<close>

text \<open>
  The two dataclasses. A field whose name a dict above already has carries the prefix
  \<open>sah_\<close> or \<open>sg_\<close>.
\<close>

record species_at_hotspot =
  locality_id :: string
  hotspot_name :: string
  sah_latitude :: rat
  sah_longitude :: rat
  detection_count :: int
  sah_total_checklists :: int
  occurrence_rate :: rat
  avg_count :: "rat option"
  sah_max_count :: "int option"
  seasonal_rates :: "(string, rat) dict"
  monthly_rates :: "(nat, rat) dict"
  confidence_level :: string

record species_guide =
  common_name :: string
  sg_scientific_name :: string
  total_detections :: int
  total_hotspots_detected :: int
  hotspots :: "species_at_hotspot list"

definition determine_confidence :: "int \<Rightarrow> string" where
  "determine_confidence checklist_count =
     (if checklist_count \<ge> HIGH_CONFIDENCE_MIN then ''high''
      else if checklist_count \<ge> MEDIUM_CONFIDENCE_MIN then ''medium''
      else ''low'')"

text \<open>The loop \<open>for season_name, months in SEASONS.items()\<close>, run on the remaining items.\<close>

fun seasonal_loop ::
  "hotspot \<Rightarrow> detection \<Rightarrow> (string, nat list) dict \<Rightarrow> (string, rat) dict \<Rightarrow> (string, rat) dict"
  where
  "seasonal_loop h data [] rates = rates"
| "seasonal_loop h data ((season_name, months) # rest) rates =
     (let seasonal_checklists =
            sum_list (map (\<lambda>m. dict_get (monthly_checklists h) m 0) months)
      in if seasonal_checklists \<ge> 5 then
           (let seasonal_detections =
                  sum_list (map (\<lambda>m. int (fcard (dict_get (monthly_checklist_ids data) m {||})))
                              months);
                rate = of_int seasonal_detections / of_int seasonal_checklists
            in seasonal_loop h data rest
                 (dict_set season_name (py_round rate RATE_DECIMAL_PLACES) rates))
         else seasonal_loop h data rest rates)"

text \<open>The loop \<open>for month in range(1, 13)\<close>, run on the remaining months.\<close>

fun monthly_loop :: "hotspot \<Rightarrow> detection \<Rightarrow> nat list \<Rightarrow> (nat, rat) dict \<Rightarrow> (nat, rat) dict"
  where
  "monthly_loop h data [] rates = rates"
| "monthly_loop h data (month # rest) rates =
     (let month_checklists = dict_get (monthly_checklists h) month 0
      in if month_checklists \<ge> 3 then
           (let month_detections = int (fcard (dict_get (monthly_checklist_ids data) month {||}));
                rate = of_int month_detections / of_int month_checklists
            in monthly_loop h data rest (dict_set month (py_round rate RATE_DECIMAL_PLACES) rates))
         else monthly_loop h data rest rates)"

text \<open>
  The \<open>SpeciesAtHotspot\<close> built for one locality that passed both \<open>continue\<close> checks
  and whose total is not zero.
\<close>

definition make_species_at_hotspot :: "string \<Rightarrow> hotspot \<Rightarrow> detection \<Rightarrow> species_at_hotspot"
  where
  "make_species_at_hotspot loc_id h data =
     (let count = int (fcard (checklist_ids data));
          rate = of_int count / of_int (total_checklists h)
      in \<lparr>locality_id = loc_id,
          hotspot_name = name h,
          sah_latitude = latitude h,
          sah_longitude = longitude h,
          detection_count = count,
          sah_total_checklists = total_checklists h,
          occurrence_rate = py_round rate RATE_DECIMAL_PLACES,
          avg_count =
            (if count > 0 \<and> total_count data > 0
             then Some (py_round (of_int (total_count data) / of_int count) 1) else None),
          sah_max_count = (if max_count data > 0 then Some (max_count data) else None),
          seasonal_rates = seasonal_loop h data SEASONS [],
          monthly_rates = monthly_loop h data [1..<13] [],
          confidence_level = determine_confidence (total_checklists h)\<rparr>)"

text \<open>
  The loop \<open>for loc_id, detection_data in hotspot_detections.items()\<close>, run on the
  remaining items; the state is \<open>(hotspots_list, total_detections, scientific_name)\<close>.
  The division by a total of zero raises \<open>ZeroDivisionError\<close>.
\<close>

fun hotspot_loop ::
  "hotspot_data \<Rightarrow> int \<Rightarrow> (string, detection) dict
     \<Rightarrow> species_at_hotspot list \<times> int \<times> string option
     \<Rightarrow> error + species_at_hotspot list \<times> int \<times> string option" where
  "hotspot_loop hotspot_data min_checklists [] st = Inr st"
| "hotspot_loop hotspot_data min_checklists ((loc_id, data) # rest) (hotspots_list, total_det, sci) =
     (case map_of hotspot_data loc_id of
        None \<Rightarrow> hotspot_loop hotspot_data min_checklists rest (hotspots_list, total_det, sci)
      | Some h \<Rightarrow>
          if total_checklists h < min_checklists then
            hotspot_loop hotspot_data min_checklists rest (hotspots_list, total_det, sci)
          else
            (let sci' = (if sci = None then scientific_name data else sci);
                 total_det' = total_det + int (fcard (checklist_ids data))
             in if total_checklists h = 0 then Inl ZeroDivisionError
                else hotspot_loop hotspot_data min_checklists rest
                       (hotspots_list @ [make_species_at_hotspot loc_id h data], total_det', sci')))"

text \<open>
  \<open>hotspots_list.sort(key=lambda x: (x.occurrence_rate, x.detection_count), reverse=True)\<close>:
  the keys are compared as Python compares tuples, and the sort is stable, so an element
  stays in front of every later element with an equal key.
\<close>

definition hotspot_key :: "species_at_hotspot \<Rightarrow> rat \<times> int" where
  "hotspot_key x = (occurrence_rate x, detection_count x)"

definition key_less :: "rat \<times> int \<Rightarrow> rat \<times> int \<Rightarrow> bool" where
  "key_less a b = (fst a < fst b \<or> (fst a = fst b \<and> snd a < snd b))"

fun insort_reverse :: "species_at_hotspot \<Rightarrow> species_at_hotspot list \<Rightarrow> species_at_hotspot list"
  where
  "insort_reverse x [] = [x]"
| "insort_reverse x (y # ys) =
     (if key_less (hotspot_key x) (hotspot_key y) then y # insort_reverse x ys else x # y # ys)"

definition sort_reverse :: "species_at_hotspot list \<Rightarrow> species_at_hotspot list" where
  "sort_reverse xs = foldr insort_reverse xs []"

definition make_species_guide ::
  "string \<Rightarrow> species_at_hotspot list \<times> int \<times> string option \<Rightarrow> species_guide" where
  "make_species_guide species_name st =
     (case st of (hotspots_list, total_det, sci) \<Rightarrow>
        \<lparr>common_name = species_name,
         sg_scientific_name = (case sci of None \<Rightarrow> [] | Some s \<Rightarrow> s),
         total_detections = total_det,
         total_hotspots_detected = int (length (sort_reverse hotspots_list)),
         hotspots = sort_reverse hotspots_list\<rparr>)"

text \<open>
  The loop \<open>for species_name, hotspot_detections in species_detections.items()\<close>, run on
  the remaining items with the guides built so far.
\<close>

fun species_loop ::
  "hotspot_data \<Rightarrow> int \<Rightarrow> species_detections \<Rightarrow> (string, species_guide) dict
     \<Rightarrow> error + (string, species_guide) dict" where
  "species_loop hotspot_data min_checklists [] species_guides = Inr species_guides"
| "species_loop hotspot_data min_checklists ((species_name, hotspot_detections) # rest)
     species_guides =
     (case hotspot_loop hotspot_data min_checklists hotspot_detections ([], 0, None) of
        Inl e \<Rightarrow> Inl e
      | Inr st \<Rightarrow>
          species_loop hotspot_data min_checklists rest
            (dict_set species_name (make_species_guide species_name st) species_guides))"

definition calculate_occurrence_rates ::
  "hotspot_data \<Rightarrow> species_detections \<Rightarrow> int \<Rightarrow> error + (string, species_guide) dict" where
  "calculate_occurrence_rates hotspot_data species_detections min_checklists =
     species_loop hotspot_data min_checklists species_detections []"

section \<open>Properties of the aggregates\<close>

text \<open>
  The additivity invariant of a location record: its monthly dict has exactly the keys
  1 to 12, in that order, and its values add up to the total.
\<close>

definition additive :: "hotspot \<Rightarrow> bool" where
  "additive h = (map fst (monthly_checklists h) = [1..<13]
                 \<and> sum_list (map snd (monthly_checklists h)) = total_checklists h)"

definition all_additive :: "hotspot_data \<Rightarrow> bool" where
  "all_additive hotspot_data = list_all (\<lambda>(loc_id, h). additive h) hotspot_data"

text \<open>
  The inclusion gate of the rate calculator, as a predicate on a locality id: the locality
  is a key of \<open>hotspot_data\<close> and its total reaches the threshold. \<open>gate_passing\<close>
  keeps the items of one species' detection dict that pass it, in iteration order.
\<close>

definition passes_gate :: "hotspot_data \<Rightarrow> int \<Rightarrow> string \<Rightarrow> bool" where
  "passes_gate hotspot_data min_checklists loc_id =
     (case map_of hotspot_data loc_id of
        None \<Rightarrow> False
      | Some h \<Rightarrow> min_checklists \<le> total_checklists h)"

definition gate_passing ::
  "hotspot_data \<Rightarrow> int \<Rightarrow> (string, detection) dict \<Rightarrow> (string, detection) dict" where
  "gate_passing hotspot_data min_checklists items =
     filter (\<lambda>(loc_id, data). passes_gate hotspot_data min_checklists loc_id) items"

text \<open>The first value that is set in a list of optional values.\<close>

fun first_set :: "'a option list \<Rightarrow> 'a option" where
  "first_set [] = None"
| "first_set (None # xs) = first_set xs"
| "first_set (Some x # xs) = Some x"





text \<open>
  \<open>species_detections[species][loc_id]\<close> read without creating an entry, and the shape of
  the records the detector builds: twelve monthly slots and a scientific name that is set.
\<close>

definition detection_of :: "species_detections \<Rightarrow> string \<Rightarrow> string \<Rightarrow> detection option" where
  "detection_of species_detections species loc_id =
     (case map_of species_detections species of
        None \<Rightarrow> None
      | Some hs \<Rightarrow> map_of hs loc_id)"

definition well_formed :: "detection \<Rightarrow> bool" where
  "well_formed data = (map fst (monthly_checklist_ids data) = [1..<13] \<and> scientific_name data \<noteq> None)"

definition all_well_formed :: "species_detections \<Rightarrow> bool" where
  "all_well_formed species_detections =
     list_all (\<lambda>(species, hs). list_all (\<lambda>(loc_id, data). well_formed data) hs)
       species_detections"

section \<open>Worked inputs\<close>

text \<open>
  Two small files. Location \<open>L1\<close> has 12 visits in January, \<open>L2\<close> has 9 visits
  in March and April, \<open>L3\<close> has 20 visits in December; one sampling row is not a hotspot.
  The robin is seen on all 9 visits to \<open>L2\<close>, on 5 visits to \<open>L3\<close> and on 6 visits
  to \<open>L1\<close> (one of them reported in two rows); the wren only at \<open>L2\<close>.
\<close>

definition ex_visit :: "string \<Rightarrow> string \<Rightarrow> nat \<Rightarrow> sampling_row" where
  "ex_visit loc_id loc_name month =
     \<lparr>sr_locality_id = loc_id, sr_locality = loc_name, sr_locality_type = ''H'',
      sr_latitude = 42, sr_longitude = - 83, sr_month = month,
      sr_all_species_reported = Some 1\<rparr>"

definition ex_sampling_chunks :: "sampling_row list list" where
  "ex_sampling_chunks =
     [replicate 12 (ex_visit ''L1'' ''Pond'' 1) @ replicate 4 (ex_visit ''L2'' ''Marsh'' 3),
      replicate 5 (ex_visit ''L2'' ''Marsh'' 4)
        @ [(ex_visit ''L9'' ''Yard'' 4)\<lparr>sr_locality_type := ''P''\<rparr>]
        @ replicate 20 (ex_visit ''L3'' ''Wood'' 12)]"

definition ex_obs :: "string \<Rightarrow> string \<Rightarrow> string \<Rightarrow> string \<Rightarrow> nat \<Rightarrow> obs_count \<Rightarrow> observation_row"
  where
  "ex_obs species sci loc_id checklist_id month obs =
     \<lparr>or_common_name = species, or_scientific_name = sci, or_category = ''species'',
      or_locality_id = loc_id, or_locality_type = ''H'',
      or_sampling_event_identifier = checklist_id, or_all_species_reported = Some 1,
      or_month = month, or_observation_count = obs\<rparr>"


text \<open>
  The aggregates of the two files and the guides computed from them; \<open>ex_months\<close> writes
  a twelve-slot dict from its non-default slots.
\<close>

definition ex_months :: "(nat \<times> 'a) list \<Rightarrow> 'a \<Rightarrow> (nat, 'a) dict" where
  "ex_months filled dflt = map (\<lambda>m. (m, dict_get filled m dflt)) [1..<13]"

definition ex_pond :: hotspot where
  "ex_pond = \<lparr>name = ''Pond'', latitude = 42, longitude = - 83, total_checklists = 12,
              monthly_checklists = ex_months [(1, 12)] 0\<rparr>"

definition ex_marsh :: hotspot where
  "ex_marsh = \<lparr>name = ''Marsh'', latitude = 42, longitude = - 83, total_checklists = 9,
               monthly_checklists = ex_months [(3, 4), (4, 5)] 0\<rparr>"

definition ex_wood :: hotspot where
  "ex_wood = \<lparr>name = ''Wood'', latitude = 42, longitude = - 83, total_checklists = 20,
              monthly_checklists = ex_months [(12, 20)] 0\<rparr>"

definition ex_hotspot_data :: hotspot_data where
  "ex_hotspot_data = [(''L1'', ex_pond), (''L2'', ex_marsh), (''L3'', ex_wood)]"

definition ex_robin_L2 :: detection where
  "ex_robin_L2 =
     \<lparr>scientific_name = Some ''Turdus sp.'',
      checklist_ids = {|''S21'', ''S22'', ''S23'', ''S24'', ''S25'', ''S26'', ''S27'', ''S28'', ''S29''|},
      monthly_checklist_ids =
        ex_months [(3, {|''S21'', ''S22'', ''S23'', ''S24''|}),
                   (4, {|''S25'', ''S26'', ''S27'', ''S28'', ''S29''|})] {||},
      total_count = 2, max_count = 2\<rparr>"

definition ex_robin_L3 :: detection where
  "ex_robin_L3 =
     \<lparr>scientific_name = Some ''Turdus migratorius'',
      checklist_ids = {|''S31'', ''S32'', ''S33'', ''S34'', ''S35''|},
      monthly_checklist_ids = ex_months [(12, {|''S31'', ''S32'', ''S33'', ''S34'', ''S35''|})] {||},
      total_count = 8, max_count = 3\<rparr>"

definition ex_robin_L1 :: detection where
  "ex_robin_L1 =
     \<lparr>scientific_name = Some ''Turdus migratorius'',
      checklist_ids = {|''S11'', ''S12'', ''S13'', ''S14'', ''S15'', ''S16''|},
      monthly_checklist_ids =
        ex_months [(1, {|''S11'', ''S12'', ''S13'', ''S14'', ''S15'', ''S16''|})] {||},
      total_count = 20, max_count = 7\<rparr>"

definition ex_wren_L2 :: detection where
  "ex_wren_L2 =
     \<lparr>scientific_name = Some ''Troglodytes hiemalis'',
      checklist_ids = {|''S21''|},
      monthly_checklist_ids = ex_months [(3, {|''S21''|})] {||},
      total_count = 1, max_count = 1\<rparr>"

definition ex_detections :: species_detections where
  "ex_detections =
     [(''Robin'', [(''L2'', ex_robin_L2), (''L3'', ex_robin_L3), (''L1'', ex_robin_L1)]),
      (''Wren'', [(''L2'', ex_wren_L2)])]"

definition ex_entry_L1 :: species_at_hotspot where
  "ex_entry_L1 =
     \<lparr>locality_id = ''L1'', hotspot_name = ''Pond'', sah_latitude = 42, sah_longitude = - 83,
      detection_count = 6, sah_total_checklists = 12, occurrence_rate = 1 / 2,
      avg_count = Some (33 / 10), sah_max_count = Some 7,
      seasonal_rates = [(''winter'', 1 / 2)], monthly_rates = [(1, 1 / 2)],
      confidence_level = ''low''\<rparr>"

definition ex_entry_L3 :: species_at_hotspot where
  "ex_entry_L3 =
     \<lparr>locality_id = ''L3'', hotspot_name = ''Wood'', sah_latitude = 42, sah_longitude = - 83,
      detection_count = 5, sah_total_checklists = 20, occurrence_rate = 1 / 4,
      avg_count = Some (8 / 5), sah_max_count = Some 3,
      seasonal_rates = [(''winter'', 1 / 4)], monthly_rates = [(12, 1 / 4)],
      confidence_level = ''low''\<rparr>"

definition ex_robin_guide :: species_guide where
  "ex_robin_guide =
     \<lparr>common_name = ''Robin'', sg_scientific_name = ''Turdus migratorius'',
      total_detections = 11, total_hotspots_detected = 2,
      hotspots = [ex_entry_L1, ex_entry_L3]\<rparr>"

definition ex_wren_guide :: species_guide where
  "ex_wren_guide =
     \<lparr>common_name = ''Wren'', sg_scientific_name = [],
      total_detections = 0, total_hotspots_detected = 0, hotspots = []\<rparr>"

definition ex_guides :: "(string, species_guide) dict" where
  "ex_guides = [(''Robin'', ex_robin_guide), (''Wren'', ex_wren_guide)]"




















text \<open>
  A record with one row, followed by a row of the same species and location that carries
  another scientific name.
\<close>

definition cx_name_data_before :: detection where
  "cx_name_data_before =
     \<lparr>scientific_name = Some ''Turdus migratorius'',
      checklist_ids = {|''S1''|},
      monthly_checklist_ids = ex_months [(5, {|''S1''|})] {||},
      total_count = 5, max_count = 5\<rparr>"

definition cx_name_row :: observation_row where
  "cx_name_row = ex_obs ''Robin'' ''Turdus merula'' ''L1'' ''S2'' 5 (CountStr ''X'')"

definition cx_name_data_after :: detection where
  "cx_name_data_after =
     \<lparr>scientific_name = Some ''Turdus merula'',
      checklist_ids = {|''S1'', ''S2''|},
      monthly_checklist_ids = ex_months [(5, {|''S1'', ''S2''|})] {||},
      total_count = 5, max_count = 5\<rparr>"

section \<open>Dictionaries\<close>

lemma map_of_dict_set: "map_of (dict_set k v d) k' = (if k' = k then Some v else map_of d k')"
proof (cases "map_of d k")
  case None
  then show ?thesis by (auto simp: dict_set_def map_add_def split: option.splits)
next
  case (Some a)
  have "map_of (map (\<lambda>(k', v'). if k' = k then (k', v) else (k', v')) d) k'
        = (if k' = k then map_option (\<lambda>_. v) (map_of d k') else map_of d k')"
    by (induction d) auto
  with Some show ?thesis by (auto simp: dict_set_def)
qed

lemma set_dict_set: "(k', v') \<in> set (dict_set k v d) \<Longrightarrow> (k', v') \<in> set d \<or> (k' = k \<and> v' = v)"
  by (auto simp: dict_set_def split: option.splits if_splits)

lemma set_dict_set_elem: "x \<in> set (dict_set k v d) \<Longrightarrow> x \<in> set d \<or> x = (k, v)"
  by (cases x) (auto dest: set_dict_set)

lemma keys_dict_set_present: "map_of d k = Some c \<Longrightarrow> map fst (dict_set k v d) = map fst d"
  by (induction d) (auto simp: dict_set_def split: if_splits)

lemma keys_dict_set_absent: "map_of d k = None \<Longrightarrow> map fst (dict_set k v d) = map fst d @ [k]"
  by (simp add: dict_set_def)

lemma sum_dict_set:
  "distinct (map fst d) \<Longrightarrow> map_of d k = Some c \<Longrightarrow>
   sum_list (map snd (dict_set k v d)) = sum_list (map snd d) - c + (v::int)"
proof (induction d)
  case Nil then show ?case by simp
next
  case (Cons a d)
  obtain k0 v0 where a: "a = (k0, v0)" by (cases a)
  show ?case
  proof (cases "k0 = k")
    case True
    with Cons.prems a have "k \<notin> fst ` set d" "c = v0" by auto
    then have "map (\<lambda>(k', v'). if k' = k then (k', v) else (k', v')) d = d"
      by (intro map_idI) (auto simp: image_iff)
    with True a \<open>c = v0\<close> show ?thesis by (simp add: dict_set_def)
  next
    case False
    with Cons.prems a have m: "map_of d k = Some c" and dd: "distinct (map fst d)" by auto
    from Cons.IH[OF dd m] m False a show ?thesis by (simp add: dict_set_def)
  qed
qed

section \<open>The checklist counter keeps the invariant and is chunk-independent\<close>

lemma additive_new_hotspot: "additive (new_hotspot row)"
proof -
  have "sum_list (map snd (map (\<lambda>m. (m, 0::int)) xs)) = 0" for xs :: "nat list"
    by (induction xs) auto
  then show ?thesis by (simp add: additive_def new_hotspot_def comp_def)
qed

lemma count_row_additive:
  assumes inv: "all_additive hotspot_data" and step: "count_row hotspot_data row = Inr hotspot_data'"
  shows "all_additive hotspot_data'"
proof -
  define h where "h = (case map_of hotspot_data (sr_locality_id row) of
                         None \<Rightarrow> new_hotspot row | Some h \<Rightarrow> h)"
  have addh: "additive h"
  proof (cases "map_of hotspot_data (sr_locality_id row)")
    case None then show ?thesis by (simp add: h_def additive_new_hotspot)
  next
    case (Some a)
    then have "(sr_locality_id row, a) \<in> set hotspot_data" by (rule map_of_SomeD)
    with inv have "additive a" by (auto simp: all_additive_def list_all_iff)
    with Some show ?thesis by (simp add: h_def)
  qed
  from step obtain c where c: "map_of (monthly_checklists h) (sr_month row) = Some c"
    and res: "hotspot_data' = dict_set (sr_locality_id row)
        (h\<lparr>total_checklists := total_checklists h + 1,
           monthly_checklists := dict_set (sr_month row) (c + 1) (monthly_checklists h)\<rparr>)
        hotspot_data"
    by (auto simp: count_row_def Let_def h_def split: option.splits)
  from addh have keys: "map fst (monthly_checklists h) = [1..<13]"
    and tot: "sum_list (map snd (monthly_checklists h)) = total_checklists h"
    by (simp_all add: additive_def)
  from keys have dist: "distinct (map fst (monthly_checklists h))" by simp
  have "additive (h\<lparr>total_checklists := total_checklists h + 1,
           monthly_checklists := dict_set (sr_month row) (c + 1) (monthly_checklists h)\<rparr>)"
    using keys tot sum_dict_set[OF dist c, of "c + 1"] keys_dict_set_present[OF c, of "c + 1"]
    by (simp add: additive_def)
  with inv show ?thesis
    unfolding res all_additive_def list_all_iff by (auto dest!: set_dict_set)
qed

lemma count_rows_additive:
  "all_additive hotspot_data \<Longrightarrow> count_rows hotspot_data rows = Inr hotspot_data'
   \<Longrightarrow> all_additive hotspot_data'"
proof (induction rows arbitrary: hotspot_data)
  case Nil then show ?case by simp
next
  case (Cons row rows)
  then show ?case by (auto split: sum.splits dest: count_row_additive)
qed

lemma count_row_returns:
  assumes inv: "all_additive hdat" and month: "sr_month row \<in> {1..12}"
  shows "\<exists>hdat'. count_row hdat row = Inr hdat'"
proof -
  let ?h = "case map_of hdat (sr_locality_id row) of None \<Rightarrow> new_hotspot row | Some h \<Rightarrow> h"
  have "additive ?h"
  proof (cases "map_of hdat (sr_locality_id row)")
    case None then show ?thesis by (simp add: additive_new_hotspot)
  next
    case (Some a)
    then have "(sr_locality_id row, a) \<in> set hdat" by (rule map_of_SomeD)
    with inv Some show ?thesis by (auto simp: all_additive_def list_all_iff)
  qed
  then have "map fst (monthly_checklists ?h) = [1..<13]" by (simp add: additive_def)
  with month have "sr_month row \<in> set (map fst (monthly_checklists ?h))" by auto
  then have "map_of (monthly_checklists ?h) (sr_month row) \<noteq> None"
    by (simp add: map_of_eq_None_iff)
  then show ?thesis
    unfolding count_row_def Let_def by (auto split: option.splits)
qed

lemma count_rows_returns:
  "all_additive hdat \<Longrightarrow> \<forall>row \<in> set rows. sr_month row \<in> {1..12}
   \<Longrightarrow> \<exists>hdat'. count_rows hdat rows = Inr hdat'"
proof (induction rows arbitrary: hdat)
  case Nil then show ?case by simp
next
  case (Cons row rows)
  from Cons.prems have "sr_month row \<in> {1..12}" by simp
  from count_row_returns[OF Cons.prems(1) this] obtain h1 where
    h1: "count_row hdat row = Inr h1" by blast
  from count_row_additive[OF Cons.prems(1) h1] have "all_additive h1" .
  from Cons.IH[OF this] Cons.prems(2) h1 show ?case by simp
qed

lemma count_rows_append:
  "count_rows hotspot_data (xs @ ys) =
     (case count_rows hotspot_data xs of Inl e \<Rightarrow> Inl e | Inr hd' \<Rightarrow> count_rows hd' ys)"
  by (induction xs arbitrary: hotspot_data) (auto split: sum.splits)

lemma count_chunks_concat:
  "count_chunks hotspot_data chunks = count_rows hotspot_data (filter sampling_mask (concat chunks))"
  by (induction chunks arbitrary: hotspot_data) (auto simp: count_rows_append split: sum.splits)

section \<open>One row of the species detector\<close>


lemma add_count_fields:
  "scientific_name (add_count obs data) = scientific_name data"
  "checklist_ids (add_count obs data) = checklist_ids data"
  "monthly_checklist_ids (add_count obs data) = monthly_checklist_ids data"
  by (simp_all add: add_count_def split: option.splits)


lemma detect_row_result:
  assumes "detect_row sd row = Inr sd'"
  shows "\<exists>ids. map_of (monthly_checklist_ids
                    (case detection_of sd (or_common_name row) (or_locality_id row) of
                       None \<Rightarrow> new_detection | Some d \<Rightarrow> d)) (or_month row) = Some ids
     \<and> detection_of sd' (or_common_name row) (or_locality_id row) =
         Some (add_count (or_observation_count row)
           ((case detection_of sd (or_common_name row) (or_locality_id row) of
                       None \<Rightarrow> new_detection | Some d \<Rightarrow> d)
            \<lparr>scientific_name := Some (or_scientific_name row),
              checklist_ids := finsert (or_sampling_event_identifier row)
                (checklist_ids (case detection_of sd (or_common_name row) (or_locality_id row) of
                       None \<Rightarrow> new_detection | Some d \<Rightarrow> d)),
              monthly_checklist_ids := dict_set (or_month row)
                 (finsert (or_sampling_event_identifier row) ids)
                 (monthly_checklist_ids (case detection_of sd (or_common_name row) (or_locality_id row) of
                       None \<Rightarrow> new_detection | Some d \<Rightarrow> d))\<rparr>))"
proof -
  have eq: "dict_get (dict_get sd (or_common_name row) []) (or_locality_id row) new_detection
        = (case detection_of sd (or_common_name row) (or_locality_id row) of
                       None \<Rightarrow> new_detection | Some d \<Rightarrow> d)"
    by (simp add: dict_get_def detection_of_def split: option.splits)
  from assms show ?thesis
    unfolding detect_row_def Let_def eq
    by (auto simp: detection_of_def map_of_dict_set split: option.splits)
qed

lemma detect_row_shape:
  assumes "detect_row sd row = Inr sd'"
  shows "\<exists>d. sd' = dict_set (or_common_name row)
                   (dict_set (or_locality_id row) d (dict_get sd (or_common_name row) [])) sd"
  using assms by (auto simp: detect_row_def Let_def split: option.splits)

lemma detect_row_frame:
  assumes "detect_row sd row = Inr sd'"
    and "(species, loc_id) \<noteq> (or_common_name row, or_locality_id row)"
  shows "detection_of sd' species loc_id = detection_of sd species loc_id"
proof -
  from detect_row_shape[OF assms(1)] obtain d where
    sd': "sd' = dict_set (or_common_name row)
                   (dict_set (or_locality_id row) d (dict_get sd (or_common_name row) [])) sd"
    by blast
  show ?thesis
  proof (cases "species = or_common_name row")
    case False
    then show ?thesis by (simp add: sd' detection_of_def map_of_dict_set)
  next
    case True
    with assms(2) have "loc_id \<noteq> or_locality_id row" by simp
    with True show ?thesis
      by (simp add: sd' detection_of_def map_of_dict_set dict_get_def split: option.splits)
  qed
qed



lemma detect_row_well_formed:
  assumes wf: "all_well_formed sd" and step: "detect_row sd row = Inr sd'"
  shows "all_well_formed sd'"
proof -
  let ?hs = "dict_get sd (or_common_name row) []"
  let ?d = "dict_get ?hs (or_locality_id row) new_detection"
  have hs: "\<forall>(loc_id, data) \<in> set ?hs. well_formed data"
  proof (cases "map_of sd (or_common_name row)")
    case None then show ?thesis by (simp add: dict_get_def)
  next
    case (Some a)
    then have "(or_common_name row, a) \<in> set sd" by (rule map_of_SomeD)
    with wf Some show ?thesis by (auto simp: dict_get_def all_well_formed_def list_all_iff)
  qed
  have keys: "map fst (monthly_checklist_ids ?d) = [1..<13]"
  proof (cases "map_of ?hs (or_locality_id row)")
    case None then show ?thesis by (simp add: dict_get_def new_detection_def comp_def)
  next
    case (Some a)
    then have "(or_locality_id row, a) \<in> set ?hs" by (rule map_of_SomeD)
    with hs Some show ?thesis by (auto simp: dict_get_def well_formed_def)
  qed
  from step obtain ids where ids: "map_of (monthly_checklist_ids ?d) (or_month row) = Some ids"
    and sd': "sd' = dict_set (or_common_name row)
       (dict_set (or_locality_id row)
          (add_count (or_observation_count row)
            (?d\<lparr>scientific_name := Some (or_scientific_name row),
                checklist_ids := finsert (or_sampling_event_identifier row) (checklist_ids ?d),
                monthly_checklist_ids := dict_set (or_month row)
                   (finsert (or_sampling_event_identifier row) ids) (monthly_checklist_ids ?d)\<rparr>))
          ?hs) sd"
    by (auto simp: detect_row_def Let_def split: option.splits)
  let ?d3 = "add_count (or_observation_count row)
            (?d\<lparr>scientific_name := Some (or_scientific_name row),
                checklist_ids := finsert (or_sampling_event_identifier row) (checklist_ids ?d),
                monthly_checklist_ids := dict_set (or_month row)
                   (finsert (or_sampling_event_identifier row) ids) (monthly_checklist_ids ?d)\<rparr>)"
  have d3: "well_formed ?d3"
    using keys keys_dict_set_present[OF ids]
    by (simp add: well_formed_def add_count_fields)
  have hs': "\<forall>(loc_id, data) \<in> set (dict_set (or_locality_id row) ?d3 ?hs). well_formed data"
    using hs d3 by (auto dest!: set_dict_set)
  show ?thesis
    unfolding sd' all_well_formed_def list_all_iff
  proof (intro ballI)
    fix x assume "x \<in> set (dict_set (or_common_name row) (dict_set (or_locality_id row) ?d3 ?hs) sd)"
    then have "x \<in> set sd \<or> x = (or_common_name row, dict_set (or_locality_id row) ?d3 ?hs)"
      by (rule set_dict_set_elem)
    then show "case x of (species, hs) \<Rightarrow> \<forall>x \<in> set hs. case x of (loc_id, data) \<Rightarrow> well_formed data"
    proof
      assume "x \<in> set sd"
      with wf show ?thesis by (auto simp: all_well_formed_def list_all_iff)
    next
      assume "x = (or_common_name row, dict_set (or_locality_id row) ?d3 ?hs)"
      with hs' show ?thesis by simp
    qed
  qed
qed

lemma detect_rows_well_formed:
  "all_well_formed sd \<Longrightarrow> detect_rows sd rows = Inr sd' \<Longrightarrow> all_well_formed sd'"
proof (induction rows arbitrary: sd)
  case Nil then show ?case by simp
next
  case (Cons row rows)
  then show ?case by (auto split: sum.splits dest: detect_row_well_formed)
qed




section \<open>The loops of the rate calculator\<close>

lemma hotspot_loop_result:
  "hotspot_loop hdat m items (hl, td, sn) = Inr (hl', td', sn') \<Longrightarrow>
   (\<exists>es. hl' = hl @ es \<and>
      list_all2 (\<lambda>(loc_id, data) e. \<exists>h. map_of hdat loc_id = Some h \<and> total_checklists h \<noteq> 0
                    \<and> e = make_species_at_hotspot loc_id h data)
        (gate_passing hdat m items) es) \<and>
   td' = td + sum_list (map (\<lambda>(loc_id, data). int (fcard (checklist_ids data)))
                         (gate_passing hdat m items)) \<and>
   sn' = (case sn of Some n \<Rightarrow> Some n
          | None \<Rightarrow> first_set (map (\<lambda>(loc_id, data). scientific_name data)
                                 (gate_passing hdat m items)))"
proof (induction items arbitrary: hl td sn)
  case Nil
  then show ?case by (auto simp: gate_passing_def split: option.splits)
next
  case (Cons item items)
  obtain loc_id data where item: "item = (loc_id, data)" by (cases item)
  show ?case
  proof (cases "passes_gate hdat m loc_id")
    case False
    then have "hotspot_loop hdat m (item # items) (hl, td, sn) = hotspot_loop hdat m items (hl, td, sn)"
      by (auto simp: item passes_gate_def split: option.splits)
    with Cons.prems have "hotspot_loop hdat m items (hl, td, sn) = Inr (hl', td', sn')" by simp
    then have "(\<exists>es. hl' = hl @ es \<and>
      list_all2 (\<lambda>(loc_id, data) e. \<exists>h. map_of hdat loc_id = Some h \<and> total_checklists h \<noteq> 0
                    \<and> e = make_species_at_hotspot loc_id h data)
        (gate_passing hdat m items) es) \<and>
   td' = td + sum_list (map (\<lambda>(loc_id, data). int (fcard (checklist_ids data)))
                         (gate_passing hdat m items)) \<and>
   sn' = (case sn of Some n \<Rightarrow> Some n
          | None \<Rightarrow> first_set (map (\<lambda>(loc_id, data). scientific_name data)
                                 (gate_passing hdat m items)))" by (rule Cons.IH)
    moreover have gp: "gate_passing hdat m (item # items) = gate_passing hdat m items"
      using False by (simp add: gate_passing_def item)
    ultimately show ?thesis unfolding gp by blast
  next
    case True
    then obtain h where h: "map_of hdat loc_id = Some h" "m \<le> total_checklists h"
      by (auto simp: passes_gate_def split: option.splits)
    with Cons.prems have nz: "total_checklists h \<noteq> 0"
      by (auto simp: item Let_def split: if_splits)
    let ?sn = "if sn = None then scientific_name data else sn"
    from Cons.prems h nz have
      "hotspot_loop hdat m items (hl @ [make_species_at_hotspot loc_id h data],
          td + int (fcard (checklist_ids data)), ?sn) = Inr (hl', td', sn')"
      by (simp add: item Let_def)
    from Cons.IH[OF this] obtain es where
      es: "hl' = (hl @ [make_species_at_hotspot loc_id h data]) @ es"
        "list_all2 (\<lambda>(loc_id, data) e. \<exists>h. map_of hdat loc_id = Some h \<and> total_checklists h \<noteq> 0
                    \<and> e = make_species_at_hotspot loc_id h data) (gate_passing hdat m items) es"
      and td: "td' = td + int (fcard (checklist_ids data))
           + sum_list (map (\<lambda>(loc_id, data). int (fcard (checklist_ids data)))
                         (gate_passing hdat m items))"
      and sn: "sn' = (case ?sn of Some n \<Rightarrow> Some n
          | None \<Rightarrow> first_set (map (\<lambda>(loc_id, data). scientific_name data)
                                 (gate_passing hdat m items)))"
      by blast
    have gp: "gate_passing hdat m (item # items) = (loc_id, data) # gate_passing hdat m items"
      using True by (simp add: gate_passing_def item)
    have 1: "\<exists>es. hl' = hl @ es \<and>
      list_all2 (\<lambda>(loc_id, data) e. \<exists>h. map_of hdat loc_id = Some h \<and> total_checklists h \<noteq> 0
                    \<and> e = make_species_at_hotspot loc_id h data)
        (gate_passing hdat m (item # items)) es"
      using es h nz unfolding gp
      by (intro exI[of _ "make_species_at_hotspot loc_id h data # es"]) simp
    have 3: "sn' = (case sn of Some n \<Rightarrow> Some n
          | None \<Rightarrow> first_set (map (\<lambda>(loc_id, data). scientific_name data)
                                 (gate_passing hdat m (item # items))))"
      unfolding gp sn by (cases sn; cases "scientific_name data") simp_all
    from 1 td 3 show ?thesis unfolding gp by simp
  qed
qed

lemma hotspot_loop_returns:
  "0 < m \<Longrightarrow> \<exists>st'. hotspot_loop hdat m items st = Inr st'"
proof (induction items arbitrary: st)
  case Nil then show ?case by (cases st) auto
next
  case (Cons item items)
  obtain loc_id data where item: "item = (loc_id, data)" by (cases item)
  obtain hl td sn where st: "st = (hl, td, sn)" by (cases st) auto
  from Cons.IH[OF Cons.prems] Cons.prems show ?case
    by (auto simp: item st Let_def split: option.splits)
qed

lemma species_loop_returns:
  "0 < m \<Longrightarrow> \<exists>guides. species_loop hdat m sd acc = Inr guides"
proof (induction sd arbitrary: acc)
  case Nil then show ?case by simp
next
  case (Cons item sd)
  obtain s items where item: "item = (s, items)" by (cases item)
  from hotspot_loop_returns[OF Cons.prems, of hdat items "([], 0, None)"]
  obtain st where "hotspot_loop hdat m items ([], 0, None) = Inr st" by blast
  with Cons show ?case by (simp add: item)
qed


lemma species_loop_other:
  "species_loop hdat m sd acc = Inr guides \<Longrightarrow> s \<notin> fst ` set sd \<Longrightarrow>
   map_of guides s = map_of acc s"
proof (induction sd arbitrary: acc)
  case Nil then show ?case by simp
next
  case (Cons item sd)
  obtain s0 items0 where item: "item = (s0, items0)" by (cases item)
  from Cons.prems(1) obtain st0 where
    rest: "species_loop hdat m sd (dict_set s0 (make_species_guide s0 st0) acc) = Inr guides"
    by (auto simp: item split: sum.splits)
  from Cons.prems(2) have "s \<noteq> s0" "s \<notin> fst ` set sd" by (auto simp: item)
  with Cons.IH[OF rest] show ?case by (simp add: map_of_dict_set)
qed

lemma species_loop_lookup:
  "species_loop hdat m sd acc = Inr guides \<Longrightarrow> distinct (map fst sd) \<Longrightarrow> (s, items) \<in> set sd \<Longrightarrow>
   \<exists>st. hotspot_loop hdat m items ([], 0, None) = Inr st
        \<and> map_of guides s = Some (make_species_guide s st)"
proof (induction sd arbitrary: acc)
  case Nil then show ?case by simp
next
  case (Cons item sd)
  obtain s0 items0 where item: "item = (s0, items0)" by (cases item)
  from Cons.prems(1) obtain st0 where
    st0: "hotspot_loop hdat m items0 ([], 0, None) = Inr st0"
    and rest: "species_loop hdat m sd (dict_set s0 (make_species_guide s0 st0) acc) = Inr guides"
    by (auto simp: item split: sum.splits)
  from Cons.prems(2) have d: "distinct (map fst sd)" and notin: "s0 \<notin> fst ` set sd"
    by (auto simp: item)
  show ?case
  proof (cases "(s, items) = (s0, items0)")
    case True
    with species_loop_other[OF rest notin] st0 show ?thesis by (simp add: map_of_dict_set)
  next
    case False
    with Cons.prems(3) have "(s, items) \<in> set sd" by (auto simp: item)
    from Cons.IH[OF rest d this] show ?thesis .
  qed
qed

lemma species_loop_keys:
  "species_loop hdat m sd acc = Inr guides \<Longrightarrow> distinct (map fst acc @ map fst sd) \<Longrightarrow>
   map fst guides = map fst acc @ map fst sd"
proof (induction sd arbitrary: acc)
  case Nil then show ?case by simp
next
  case (Cons item sd)
  obtain s0 items0 where item: "item = (s0, items0)" by (cases item)
  from Cons.prems(1) obtain st0 where
    rest: "species_loop hdat m sd (dict_set s0 (make_species_guide s0 st0) acc) = Inr guides"
    by (auto simp: item split: sum.splits)
  from Cons.prems(2) have "s0 \<notin> fst ` set acc" by (auto simp: item)
  then have "map_of acc s0 = None" by (simp add: map_of_eq_None_iff)
  then have k: "map fst (dict_set s0 (make_species_guide s0 st0) acc) = map fst acc @ [s0]"
    by (rule keys_dict_set_absent)
  with Cons.prems(2) have "distinct (map fst (dict_set s0 (make_species_guide s0 st0) acc) @ map fst sd)"
    by (auto simp: item)
  from Cons.IH[OF rest this] k show ?case by (simp add: item)
qed


lemma list_all2_entry_ids:
  "list_all2 (\<lambda>(loc_id, data) e. \<exists>h. map_of hdat loc_id = Some h \<and> total_checklists h \<noteq> 0
                    \<and> e = make_species_at_hotspot loc_id h data) xs es
   \<Longrightarrow> map locality_id es = map fst xs"
  by (induction rule: list_all2_induct) (auto simp: make_species_at_hotspot_def Let_def)

section \<open>Sorting and rounding\<close>

lemma set_insort_reverse: "set (insort_reverse x ys) = insert x (set ys)"
  by (induction ys) auto

lemma set_sort_reverse: "set (sort_reverse xs) = set xs"
  by (induction xs) (auto simp: sort_reverse_def set_insort_reverse)









lemma guide_lookup:
  assumes "calculate_occurrence_rates hdat sd m = Inr guides"
    and "distinct (map fst sd)" and "(s, items) \<in> set sd"
  shows "\<exists>es sn. map_of guides s = Some (make_species_guide s (es, 
            sum_list (map (\<lambda>(loc_id, data). int (fcard (checklist_ids data))) (gate_passing hdat m items)),
            sn))
        \<and> map locality_id es = map fst (gate_passing hdat m items)
        \<and> sn = first_set (map (\<lambda>(loc_id, data). scientific_name data) (gate_passing hdat m items))"
proof -
  from species_loop_lookup[OF assms(1)[unfolded calculate_occurrence_rates_def] assms(2,3)]
  obtain st where st: "hotspot_loop hdat m items ([], 0, None) = Inr st"
    and g: "map_of guides s = Some (make_species_guide s st)" by blast
  obtain hl td sn where st': "st = (hl, td, sn)" by (cases st) auto
  from hotspot_loop_result[OF st[unfolded st']] list_all2_entry_ids[of hdat "gate_passing hdat m items" hl]
  show ?thesis using g unfolding st' by auto
qed

section \<open>Seasonal rates\<close>




section \<open>Facts about the worked inputs\<close>



lemma ex_distinct: "distinct (map fst ex_detections)"
  by (simp add: ex_detections_def)

section \<open>The checked properties\<close>









text \<open>
  C4. The locations listed in a species' guide are exactly the locations of that species'
  detection dict that pass the gate, and the gate reads only the location's total and the
  threshold. With the default threshold no listed location has a total of 9.
\<close>

theorem inclusion_gate:
  assumes "calculate_occurrence_rates hdat sd m = Inr guides"
    and "distinct (map fst sd)" and "(s, items) \<in> set sd"
  shows "\<exists>g. map_of guides s = Some g
           \<and> locality_id ` set (hotspots g)
               = {loc_id \<in> fst ` set items. passes_gate hdat m loc_id}
           \<and> (m = MIN_CHECKLISTS_THRESHOLD \<longrightarrow>
                (\<forall>e \<in> set (hotspots g). \<forall>h. map_of hdat (locality_id e) = Some h
                    \<longrightarrow> total_checklists h \<noteq> 9))"
proof -
  from guide_lookup[OF assms] obtain es td sn where
    g: "map_of guides s = Some (make_species_guide s (es, td, sn))"
    and ids: "map locality_id es = map fst (gate_passing hdat m items)" by blast
  have "locality_id ` set (hotspots (make_species_guide s (es, td, sn))) = set (map locality_id es)"
    by (simp add: make_species_guide_def set_sort_reverse)
  also have "\<dots> = {loc_id \<in> fst ` set items. passes_gate hdat m loc_id}"
    unfolding ids by (auto simp: gate_passing_def image_iff)
  finally have eq: "locality_id ` set (hotspots (make_species_guide s (es, td, sn)))
      = {loc_id \<in> fst ` set items. passes_gate hdat m loc_id}" .
  then have "\<forall>e \<in> set (hotspots (make_species_guide s (es, td, sn))).
      passes_gate hdat m (locality_id e)" by blast
  then have "m = MIN_CHECKLISTS_THRESHOLD \<longrightarrow>
                (\<forall>e \<in> set (hotspots (make_species_guide s (es, td, sn))).
                   \<forall>h. map_of hdat (locality_id e) = Some h \<longrightarrow> total_checklists h \<noteq> 9)"
    by (auto simp: passes_gate_def MIN_CHECKLISTS_THRESHOLD_def)
  with g eq show ?thesis by blast
qed

text \<open>
  \<open>L2\<close> has 9 visits and the robin on all 9 of them; it is not in the robin's guide,
  \<open>L1\<close> is.
\<close>

theorem inclusion_gate_witness:
  "calculate_occurrence_rates ex_hotspot_data ex_detections MIN_CHECKLISTS_THRESHOLD = Inr ex_guides
   \<and> total_checklists ex_marsh = 9
   \<and> fcard (checklist_ids ex_robin_L2) = 9
   \<and> \<not> passes_gate ex_hotspot_data MIN_CHECKLISTS_THRESHOLD ''L2''
   \<and> ''L2'' \<notin> locality_id ` set (hotspots ex_robin_guide)
   \<and> passes_gate ex_hotspot_data MIN_CHECKLISTS_THRESHOLD ''L1''
   \<and> ''L1'' \<in> locality_id ` set (hotspots ex_robin_guide)"
proof -
  have run: "calculate_occurrence_rates ex_hotspot_data ex_detections MIN_CHECKLISTS_THRESHOLD
             = Inr ex_guides" by code_simp
  have mem: "(''Robin'', [(''L2'', ex_robin_L2), (''L3'', ex_robin_L3), (''L1'', ex_robin_L1)])
             \<in> set ex_detections"
    by (simp add: ex_detections_def)
  have g: "map_of ex_guides ''Robin'' = Some ex_robin_guide" by (simp add: ex_guides_def)
  have facts: "total_checklists ex_marsh = 9" "fcard (checklist_ids ex_robin_L2) = 9"
    "\<not> passes_gate ex_hotspot_data MIN_CHECKLISTS_THRESHOLD ''L2''"
    "passes_gate ex_hotspot_data MIN_CHECKLISTS_THRESHOLD ''L1''"
    by code_simp+
  from inclusion_gate[OF run ex_distinct mem] g
  have "locality_id ` set (hotspots ex_robin_guide)
        = {loc_id \<in> fst ` set [(''L2'', ex_robin_L2), (''L3'', ex_robin_L3), (''L1'', ex_robin_L1)].
             passes_gate ex_hotspot_data MIN_CHECKLISTS_THRESHOLD loc_id}"
    by auto
  with run facts show ?thesis by simp
qed




text \<open>
  C6, as the code has it. Every row that the detector processes stores its scientific name
  in the record of its (species, location) pair, whatever the record held before; the
  records of all other pairs stay as they were.
\<close>

theorem scientific_name_last_row:
  assumes "detect_row sd row = Inr sd'"
  shows "(\<exists>after. detection_of sd' (or_common_name row) (or_locality_id row) = Some after
            \<and> scientific_name after = Some (or_scientific_name row))
       \<and> (\<forall>species loc_id. (species, loc_id) \<noteq> (or_common_name row, or_locality_id row)
            \<longrightarrow> detection_of sd' species loc_id = detection_of sd species loc_id)"
proof -
  from detect_row_result[OF assms]
  have "\<exists>after. detection_of sd' (or_common_name row) (or_locality_id row) = Some after
            \<and> scientific_name after = Some (or_scientific_name row)"
    by (auto simp: add_count_fields)
  with detect_row_frame[OF assms] show ?thesis by blast
qed

text \<open>A robin row changes the robin's record at \<open>L1\<close> and leaves the wren's record alone.\<close>

theorem scientific_name_last_row_witness:
  "detect_row [(''Robin'', [(''L1'', cx_name_data_before)]), (''Wren'', [(''L2'', ex_wren_L2)])]
      cx_name_row
     = Inr [(''Robin'', [(''L1'', cx_name_data_after)]), (''Wren'', [(''L2'', ex_wren_L2)])]
   \<and> scientific_name cx_name_data_after = Some (or_scientific_name cx_name_row)
   \<and> detection_of [(''Robin'', [(''L1'', cx_name_data_after)]), (''Wren'', [(''L2'', ex_wren_L2)])]
        ''Wren'' ''L2''
       = detection_of
           [(''Robin'', [(''L1'', cx_name_data_before)]), (''Wren'', [(''L2'', ex_wren_L2)])]
           ''Wren'' ''L2''"
proof -
  have run: "detect_row
      [(''Robin'', [(''L1'', cx_name_data_before)]), (''Wren'', [(''L2'', ex_wren_L2)])] cx_name_row
     = Inr [(''Robin'', [(''L1'', cx_name_data_after)]), (''Wren'', [(''L2'', ex_wren_L2)])]"
    by code_simp
  have row: "or_common_name cx_name_row = ''Robin''" "or_locality_id cx_name_row = ''L1''"
    by (simp_all add: cx_name_row_def ex_obs_def)
  have other: "(''Wren'', ''L2'') \<noteq> (or_common_name cx_name_row, or_locality_id cx_name_row)"
    by (simp add: row)
  from scientific_name_last_row[OF run] other
  show ?thesis using run by (auto simp: row detection_of_def)
qed

text \<open>
  The second row of a pair carries another scientific name, and the field holds that name
  afterwards.
\<close>

theorem scientific_name_fixed_counterexample:
  "count_species_detections
      [[ex_obs ''Robin'' ''Turdus migratorius'' ''L1'' ''S1'' 5 (CountStr ''5'')]]
     = Inr [(''Robin'', [(''L1'', cx_name_data_before)])]
   \<and> detect_row [(''Robin'', [(''L1'', cx_name_data_before)])] cx_name_row
       = Inr [(''Robin'', [(''L1'', cx_name_data_after)])]
   \<and> scientific_name cx_name_data_before = Some ''Turdus migratorius''
   \<and> scientific_name cx_name_data_after = Some ''Turdus merula''"
  by code_simp

text \<open>
  C7. With a positive threshold the calculator returns. Whenever it returns, the guides
  have the species of the detection mapping as keys, in the same order, and a species none
  of whose locations passes the gate has the guide with an empty scientific name, total
  detections 0, location count 0 and no locations.
\<close>

theorem species_always_present:
  assumes "distinct (map fst sd)"
  shows "(0 < m \<longrightarrow> (\<exists>guides. calculate_occurrence_rates hdat sd m = Inr guides))
       \<and> (\<forall>guides. calculate_occurrence_rates hdat sd m = Inr guides \<longrightarrow>
             map fst guides = map fst sd
             \<and> (\<forall>(s, items) \<in> set sd. gate_passing hdat m items = [] \<longrightarrow>
                  map_of guides s =
                    Some \<lparr>common_name = s, sg_scientific_name = [], total_detections = 0,
                          total_hotspots_detected = 0, hotspots = []\<rparr>))"
proof (intro conjI impI allI)
  assume "0 < m"
  then show "\<exists>guides. calculate_occurrence_rates hdat sd m = Inr guides"
    unfolding calculate_occurrence_rates_def by (rule species_loop_returns)
next
  fix guides assume run: "calculate_occurrence_rates hdat sd m = Inr guides"
  from species_loop_keys[OF run[unfolded calculate_occurrence_rates_def]] assms
  show "map fst guides = map fst sd" by simp
  show "\<forall>(s, items) \<in> set sd. gate_passing hdat m items = [] \<longrightarrow>
          map_of guides s = Some \<lparr>common_name = s, sg_scientific_name = [], total_detections = 0,
                          total_hotspots_detected = 0, hotspots = []\<rparr>"
  proof (intro ballI, clarify)
    fix s items assume mem: "(s, items) \<in> set sd" and none: "gate_passing hdat m items = []"
    from guide_lookup[OF run assms mem] none
    show "map_of guides s = Some \<lparr>common_name = s, sg_scientific_name = [], total_detections = 0,
                          total_hotspots_detected = 0, hotspots = []\<rparr>"
      by (auto simp: make_species_guide_def sort_reverse_def)
  qed
qed

text \<open>The wren is detected only at \<open>L2\<close>, which fails the gate.\<close>

theorem species_always_present_witness:
  "calculate_occurrence_rates ex_hotspot_data ex_detections MIN_CHECKLISTS_THRESHOLD = Inr ex_guides
   \<and> gate_passing ex_hotspot_data MIN_CHECKLISTS_THRESHOLD [(''L2'', ex_wren_L2)] = []
   \<and> map fst ex_guides = map fst ex_detections
   \<and> map_of ex_guides ''Wren'' =
        Some \<lparr>common_name = ''Wren'', sg_scientific_name = [], total_detections = 0,
              total_hotspots_detected = 0, hotspots = []\<rparr>"
proof -
  have run: "calculate_occurrence_rates ex_hotspot_data ex_detections MIN_CHECKLISTS_THRESHOLD
             = Inr ex_guides" by code_simp
  have mem: "(''Wren'', [(''L2'', ex_wren_L2)]) \<in> set ex_detections"
    by (simp add: ex_detections_def)
  have none: "gate_passing ex_hotspot_data MIN_CHECKLISTS_THRESHOLD [(''L2'', ex_wren_L2)] = []"
    by code_simp
  from species_always_present[OF ex_distinct, of MIN_CHECKLISTS_THRESHOLD ex_hotspot_data] run
  have keys: "map fst ex_guides = map fst ex_detections"
    and empty: "\<forall>(s, items) \<in> set ex_detections.
            gate_passing ex_hotspot_data MIN_CHECKLISTS_THRESHOLD items = [] \<longrightarrow>
            map_of ex_guides s =
              Some \<lparr>common_name = s, sg_scientific_name = [], total_detections = 0,
                    total_hotspots_detected = 0, hotspots = []\<rparr>"
    by blast+
  from empty mem none have "map_of ex_guides ''Wren'' =
        Some \<lparr>common_name = ''Wren'', sg_scientific_name = [], total_detections = 0,
              total_hotspots_detected = 0, hotspots = []\<rparr>"
    by fastforce
  with run none keys show ?thesis by simp
qed

text \<open>
  C8. A freshly initialised location record is additive, every row step of the checklist
  counter keeps every record additive, so the result of the whole pass (and of every prefix
  of it, which is a pass of its own) is additive. The pass returns when every qualifying
  row has a month from 1 to 12.
\<close>

theorem monthly_counts_sum_to_total:
  "additive (new_hotspot row) \<and>
   (all_additive hotspot_data \<and> count_row hotspot_data row = Inr hotspot_data'
      \<longrightarrow> all_additive hotspot_data') \<and>
   (count_checklists_per_hotspot chunks = Inr result \<longrightarrow> all_additive result) \<and>
   ((\<forall>r \<in> set (filter sampling_mask (concat chunks)). sr_month r \<in> {1..12})
      \<longrightarrow> (\<exists>result. count_checklists_per_hotspot chunks = Inr result))"
proof -
  have e: "all_additive []" by (simp add: all_additive_def)
  have "count_checklists_per_hotspot chunks = Inr result \<longrightarrow> all_additive result"
    using count_rows_additive[OF e]
    by (simp add: count_checklists_per_hotspot_def count_chunks_concat)
  moreover have "(\<forall>r \<in> set (filter sampling_mask (concat chunks)). sr_month r \<in> {1..12})
      \<longrightarrow> (\<exists>result. count_checklists_per_hotspot chunks = Inr result)"
    using count_rows_returns[OF e]
    by (simp add: count_checklists_per_hotspot_def count_chunks_concat)
  ultimately show ?thesis
    using additive_new_hotspot count_row_additive by blast
qed

text \<open>The sampling file of the worked inputs, and its first row.\<close>

theorem monthly_counts_sum_to_total_witness:
  "count_checklists_per_hotspot ex_sampling_chunks = Inr ex_hotspot_data
   \<and> all_additive ex_hotspot_data
   \<and> count_row [] (ex_visit ''L1'' ''Pond'' 1)
       = Inr [(''L1'', \<lparr>name = ''Pond'', latitude = 42, longitude = - 83, total_checklists = 1,
                        monthly_checklists = ex_months [(1, 1)] 0\<rparr>)]
   \<and> all_additive [(''L1'', \<lparr>name = ''Pond'', latitude = 42, longitude = - 83,
                        total_checklists = 1, monthly_checklists = ex_months [(1, 1)] 0\<rparr>)]"
proof -
  have run: "count_checklists_per_hotspot ex_sampling_chunks = Inr ex_hotspot_data"
    by code_simp
  have months: "\<forall>r \<in> set (filter sampling_mask (concat ex_sampling_chunks)). sr_month r \<in> {1..12}"
    by (simp add: ex_sampling_chunks_def ex_visit_def sampling_mask_def)
  have step: "count_row [] (ex_visit ''L1'' ''Pond'' 1)
       = Inr [(''L1'', \<lparr>name = ''Pond'', latitude = 42, longitude = - 83, total_checklists = 1,
                        monthly_checklists = ex_months [(1, 1)] 0\<rparr>)]"
    by code_simp
  have init: "all_additive []" by (simp add: all_additive_def)
  from monthly_counts_sum_to_total[of "ex_visit ''L1'' ''Pond'' 1" "[]"
      "[(''L1'', \<lparr>name = ''Pond'', latitude = 42, longitude = - 83, total_checklists = 1,
                        monthly_checklists = ex_months [(1, 1)] 0\<rparr>)]"
      ex_sampling_chunks ex_hotspot_data] run months step init
  show ?thesis by simp
qed



text \<open>
  C10. The scientific name of a species' guide is the empty string when no location of the
  species passes the gate, and otherwise the scientific name of the first location that
  passes it, in the order of the detection dict, that name being set (as it is in every
  record the detector builds).
\<close>

theorem guide_scientific_name:
  assumes "calculate_occurrence_rates hdat sd m = Inr guides"
    and "distinct (map fst sd)" and "(s, items) \<in> set sd"
  shows "\<exists>g. map_of guides s = Some g
           \<and> (gate_passing hdat m items = [] \<longrightarrow> sg_scientific_name g = [])
           \<and> (\<forall>loc_id data rest n.
                 gate_passing hdat m items = (loc_id, data) # rest \<and> scientific_name data = Some n
                 \<longrightarrow> sg_scientific_name g = n)
           \<and> sg_scientific_name g =
               (case first_set (map (\<lambda>(loc_id, data). scientific_name data)
                                 (gate_passing hdat m items)) of
                  None \<Rightarrow> [] | Some n \<Rightarrow> n)"
proof -
  from guide_lookup[OF assms] obtain es td sn where
    g: "map_of guides s = Some (make_species_guide s (es, td, sn))"
    and sn: "sn = first_set (map (\<lambda>(loc_id, data). scientific_name data) (gate_passing hdat m items))"
    by blast
  show ?thesis
    using g by (auto simp: sn make_species_guide_def)
qed

text \<open>
  The robin's first location \<open>L2\<close> fails the gate, so the guide has the name recorded at
  \<open>L3\<close>; the wren's guide has the empty name.
\<close>

theorem guide_scientific_name_witness:
  "calculate_occurrence_rates ex_hotspot_data ex_detections MIN_CHECKLISTS_THRESHOLD = Inr ex_guides
   \<and> gate_passing ex_hotspot_data MIN_CHECKLISTS_THRESHOLD
        [(''L2'', ex_robin_L2), (''L3'', ex_robin_L3), (''L1'', ex_robin_L1)]
       = [(''L3'', ex_robin_L3), (''L1'', ex_robin_L1)]
   \<and> scientific_name ex_robin_L2 = Some ''Turdus sp.''
   \<and> scientific_name ex_robin_L3 = Some ''Turdus migratorius''
   \<and> sg_scientific_name ex_robin_guide = ''Turdus migratorius''
   \<and> gate_passing ex_hotspot_data MIN_CHECKLISTS_THRESHOLD [(''L2'', ex_wren_L2)] = []
   \<and> scientific_name ex_wren_L2 = Some ''Troglodytes hiemalis''
   \<and> sg_scientific_name ex_wren_guide = []"
proof -
  have run: "calculate_occurrence_rates ex_hotspot_data ex_detections MIN_CHECKLISTS_THRESHOLD
             = Inr ex_guides" by code_simp
  have robin: "(''Robin'', [(''L2'', ex_robin_L2), (''L3'', ex_robin_L3), (''L1'', ex_robin_L1)])
             \<in> set ex_detections"
    and wren: "(''Wren'', [(''L2'', ex_wren_L2)]) \<in> set ex_detections"
    by (simp_all add: ex_detections_def)
  have gr: "gate_passing ex_hotspot_data MIN_CHECKLISTS_THRESHOLD
        [(''L2'', ex_robin_L2), (''L3'', ex_robin_L3), (''L1'', ex_robin_L1)]
       = [(''L3'', ex_robin_L3), (''L1'', ex_robin_L1)]"
    and gw: "gate_passing ex_hotspot_data MIN_CHECKLISTS_THRESHOLD [(''L2'', ex_wren_L2)] = []"
    by code_simp+
  have names: "scientific_name ex_robin_L2 = Some ''Turdus sp.''"
    "scientific_name ex_robin_L3 = Some ''Turdus migratorius''"
    "scientific_name ex_wren_L2 = Some ''Troglodytes hiemalis''"
    by (simp_all add: ex_robin_L2_def ex_robin_L3_def ex_wren_L2_def)
  have g: "map_of ex_guides ''Robin'' = Some ex_robin_guide"
    "map_of ex_guides ''Wren'' = Some ex_wren_guide" by (simp_all add: ex_guides_def)
  from guide_scientific_name[OF run ex_distinct robin] g(1) gr names(2)
  have 1: "sg_scientific_name ex_robin_guide = ''Turdus migratorius''" by auto
  from guide_scientific_name[OF run ex_distinct wren] g(2) gw
  have 2: "sg_scientific_name ex_wren_guide = []" by auto
  from run gr gw names 1 2 show ?thesis by simp
qed

end
